theory Spec2Isabelle
  imports Main
begin

section \<open>Values exchanged with the libraries around package orm\<close>

text \<open>
  The package \<^verbatim>\<open>orm\<close> (file \<^verbatim>\<open>orm/db.go\<close>) is a layer over \<^verbatim>\<open>database/sql\<close>,
  \<^verbatim>\<open>context\<close>, \<^verbatim>\<open>log\<close>, \<^verbatim>\<open>time\<close> and \<^verbatim>\<open>opentracing\<close>. Those libraries are not
  part of the repository. What they hand back to the package (the result of a driver call,
  the time a call took) enters every function below as an argument, and what the package
  asks of them (the calls a handle receives, the lines written to the logger, the operations
  on a span) is recorded as a list.
\<close>

text \<open>
  A Go \<^verbatim>\<open>error\<close> is \<^verbatim>\<open>error option\<close>, with \<^verbatim>\<open>None\<close> for \<^verbatim>\<open>nil\<close>.
  \<^verbatim>\<open>ErrorString\<close> is the value built by \<^verbatim>\<open>fmt.Errorf\<close>, \<^verbatim>\<open>Canceled\<close> and
  \<^verbatim>\<open>DeadlineExceeded\<close> are the two errors of package \<^verbatim>\<open>context\<close>, \<^verbatim>\<open>ErrTxDone\<close> is
  \<^verbatim>\<open>sql.ErrTxDone\<close>, and \<^verbatim>\<open>DriverError\<close> stands for whatever the driver reports.
\<close>

datatype error =
    ErrorString string
  | Canceled
  | DeadlineExceeded
  | ErrTxDone
  | DriverError string

text \<open>\<^verbatim>\<open>time.Duration\<close> is an \<^verbatim>\<open>int64\<close> count of nanoseconds. The package only
  compares durations, so no arithmetic can overflow and \<^verbatim>\<open>int\<close> carries the values.\<close>

type_synonym Duration = int

text \<open>The arguments of a statement are \<^verbatim>\<open>interface{}\<close> values that the package passes
  on untouched.\<close>

datatype arg = ArgInt int | ArgString string | ArgNil

datatype rows = Rows "arg list list"

datatype sqlResult = Result int int

text \<open>
  A \<^verbatim>\<open>context.Context\<close>: \<^verbatim>\<open>Err\<close> is what \<^verbatim>\<open>Err()\<close> returns. By the contract of
  the interface the channel of \<^verbatim>\<open>Done()\<close> is closed exactly when \<^verbatim>\<open>Err()\<close> is not
  \<^verbatim>\<open>nil\<close>.
\<close>

record Context =
  Err :: "error option"

definition Done :: "Context \<Rightarrow> bool" where
  "Done c = (Err c \<noteq> None)"

text \<open>A call either returns or panics. The only panic the package can raise is a method
  call through a \<^verbatim>\<open>nil\<close> handle.\<close>

datatype panic = NilPointerDereference

datatype 'a outcome = Return 'a | Panic panic

text \<open>The handles \<^verbatim>\<open>*sql.DB\<close> and \<^verbatim>\<open>*sql.Tx\<close> are the calls they have received.\<close>

datatype dbcall =
    DB_Query string "arg list"
  | DB_Exec string "arg list"
  | DB_Begin
  | DB_Close

type_synonym sqlDB = "dbcall list"

datatype txcall =
    Tx_Query string "arg list"
  | Tx_QueryContext Context string "arg list"
  | Tx_Exec string "arg list"
  | Tx_ExecContext Context string "arg list"
  | Tx_Commit
  | Tx_Rollback

type_synonym sqlTx = "txcall list"

text \<open>A line written through \<^verbatim>\<open>log.Println\<close>: its tag and the values printed after it.\<close>

datatype logline = SLOW Duration string "arg list" | DEBUG string "arg list"

section \<open>The structs of package orm\<close>

record DBStore =
  DB :: "sqlDB option"
  debug :: bool
  slowlog :: Duration

text \<open>A \<^verbatim>\<open>DBTx\<close> is built by \<^verbatim>\<open>BeginTx\<close> only, which stores the handle that
  \<^verbatim>\<open>Begin()\<close> returned without error; no function of the package writes the field
  \<^verbatim>\<open>tx\<close> again, so the handle is never \<^verbatim>\<open>nil\<close>.\<close>

record DBTx =
  tx :: sqlTx
  debug :: bool
  slowlog :: Duration
  err :: "error option"
  rowsAffected :: int
  Ctx :: "Context option"

section \<open>DBStore\<close>

definition DBStore_Debug :: "bool \<Rightarrow> DBStore \<Rightarrow> DBStore" where
  "DBStore_Debug b store = store\<lparr>DBStore.debug := b\<rparr>"

definition DBStore_SlowLog :: "Duration \<Rightarrow> DBStore \<Rightarrow> DBStore" where
  "DBStore_SlowLog duration store = store\<lparr>DBStore.slowlog := duration\<rparr>"

text \<open>
  \<^verbatim>\<open>span\<close> is the value of \<^verbatim>\<open>time.Now().Sub(t1)\<close> in the deferred function and
  \<^verbatim>\<open>reply\<close> is what \<^verbatim>\<open>store.DB.Query\<close> returns. The deferred function is registered
  before the call, so it also runs when the call panics. The result carries the lines
  logged by this call, in the order they are written.
\<close>

definition DBStore_Query ::
  "Duration \<Rightarrow> rows option \<times> error option \<Rightarrow> string \<Rightarrow> arg list \<Rightarrow> DBStore
    \<Rightarrow> ((rows option \<times> error option) outcome \<times> logline list) \<times> DBStore" where
  "DBStore_Query span reply sql args store =
     (let deferred = (if DBStore.slowlog store > 0
                      then (if span > DBStore.slowlog store then [SLOW span sql args] else [])
                      else []);
          dbg = (if DBStore.debug store then [DEBUG sql args] else [])
      in case DBStore.DB store of
           None \<Rightarrow> ((Panic NilPointerDereference, dbg @ deferred), store)
         | Some h \<Rightarrow> ((Return reply, dbg @ deferred),
                      store\<lparr>DBStore.DB := Some (h @ [DB_Query sql args])\<rparr>))"

definition DBStore_Exec ::
  "Duration \<Rightarrow> sqlResult option \<times> error option \<Rightarrow> string \<Rightarrow> arg list \<Rightarrow> DBStore
    \<Rightarrow> ((sqlResult option \<times> error option) outcome \<times> logline list) \<times> DBStore" where
  "DBStore_Exec span reply sql args store =
     (let deferred = (if DBStore.slowlog store > 0
                      then (if span > DBStore.slowlog store then [SLOW span sql args] else [])
                      else []);
          dbg = (if DBStore.debug store then [DEBUG sql args] else [])
      in case DBStore.DB store of
           None \<Rightarrow> ((Panic NilPointerDereference, dbg @ deferred), store)
         | Some h \<Rightarrow> ((Return reply, dbg @ deferred),
                      store\<lparr>DBStore.DB := Some (h @ [DB_Exec sql args])\<rparr>))"

definition DBStore_SetError :: "error option \<Rightarrow> DBStore \<Rightarrow> DBStore" where
  "DBStore_SetError e store = store"

text \<open>\<^verbatim>\<open>reply\<close> is what \<^verbatim>\<open>store.DB.Close()\<close> returns. With \<^verbatim>\<open>store.DB\<close> equal
  to \<^verbatim>\<open>nil\<close> that call dereferences the nil handle.\<close>

definition DBStore_Close :: "error option \<Rightarrow> DBStore \<Rightarrow> (error option) outcome \<times> DBStore" where
  "DBStore_Close reply store =
     (case DBStore.DB store of
        None \<Rightarrow> (Panic NilPointerDereference, store)
      | Some h \<Rightarrow>
          (case reply of
             Some e \<Rightarrow> (Return (Some e), store\<lparr>DBStore.DB := Some (h @ [DB_Close])\<rparr>)
           | None \<Rightarrow> (Return None, store\<lparr>DBStore.DB := None\<rparr>)))"

text \<open>\<^verbatim>\<open>reply\<close> is the error of \<^verbatim>\<open>store.Begin()\<close>; without error the new handle has
  received no call yet. The fields \<^verbatim>\<open>err\<close> and \<^verbatim>\<open>rowsAffected\<close> are not named in the
  composite literal and take their zero values.\<close>

definition DBStore_BeginTx ::
  "error option \<Rightarrow> Context option \<Rightarrow> DBStore \<Rightarrow> (DBTx option \<times> error option) outcome \<times> DBStore" where
  "DBStore_BeginTx reply ctx store =
     (case DBStore.DB store of
        None \<Rightarrow> (Panic NilPointerDereference, store)
      | Some h \<Rightarrow>
          (case reply of
             Some e \<Rightarrow> (Return (None, Some e), store\<lparr>DBStore.DB := Some (h @ [DB_Begin])\<rparr>)
           | None \<Rightarrow>
               (Return (Some \<lparr>tx = [], debug = DBStore.debug store,
                               slowlog = DBStore.slowlog store, err = None,
                               rowsAffected = 0, Ctx = ctx\<rparr>, None),
                store\<lparr>DBStore.DB := Some (h @ [DB_Begin])\<rparr>)))"

section \<open>DBTx\<close>

text \<open>\<^verbatim>\<open>reply\<close> is what \<^verbatim>\<open>tx.tx.Rollback()\<close> or \<^verbatim>\<open>tx.tx.Commit()\<close> returns.\<close>

definition DBTx_Close :: "error option \<Rightarrow> DBTx \<Rightarrow> error option \<times> DBTx" where
  "DBTx_Close reply t =
     (let t1 = (case Ctx t of
                  Some c \<Rightarrow> if Done c then t\<lparr>err := Err c\<rparr> else t
                | None \<Rightarrow> t)
      in if err t1 \<noteq> None
         then (reply, t1\<lparr>tx := tx t1 @ [Tx_Rollback]\<rparr>)
         else (reply, t1\<lparr>tx := tx t1 @ [Tx_Commit]\<rparr>))"

definition DBTx_Query ::
  "Duration \<Rightarrow> rows option \<times> error option \<Rightarrow> string \<Rightarrow> arg list \<Rightarrow> DBTx
    \<Rightarrow> ((rows option \<times> error option) \<times> logline list) \<times> DBTx" where
  "DBTx_Query span reply sql args t =
     (let deferred = (if DBTx.slowlog t > 0
                      then (if span > DBTx.slowlog t then [SLOW span sql args] else [])
                      else []);
          dbg = (if DBTx.debug t then [DEBUG sql args] else [])
      in case Ctx t of
           Some c \<Rightarrow>
             (let t1 = t\<lparr>tx := tx t @ [Tx_QueryContext c sql args], err := snd reply\<rparr>
              in ((reply, dbg @ deferred), t1))
         | None \<Rightarrow>
             (let t1 = t\<lparr>tx := tx t @ [Tx_Query sql args], err := snd reply\<rparr>
              in (((fst reply, err t1), dbg @ deferred), t1)))"

definition DBTx_Exec ::
  "Duration \<Rightarrow> sqlResult option \<times> error option \<Rightarrow> string \<Rightarrow> arg list \<Rightarrow> DBTx
    \<Rightarrow> ((sqlResult option \<times> error option) \<times> logline list) \<times> DBTx" where
  "DBTx_Exec span reply sql args t =
     (let deferred = (if DBTx.slowlog t > 0
                      then (if span > DBTx.slowlog t then [SLOW span sql args] else [])
                      else []);
          dbg = (if DBTx.debug t then [DEBUG sql args] else [])
      in case Ctx t of
           Some c \<Rightarrow>
             ((reply, dbg @ deferred),
              t\<lparr>tx := tx t @ [Tx_ExecContext c sql args], err := snd reply\<rparr>)
         | None \<Rightarrow>
             ((reply, dbg @ deferred),
              t\<lparr>tx := tx t @ [Tx_Exec sql args], err := snd reply\<rparr>))"

definition DBTx_SetError :: "error option \<Rightarrow> DBTx \<Rightarrow> DBTx" where
  "DBTx_SetError e t = t\<lparr>err := e\<rparr>"

definition DBTx_SetContext :: "Context option \<Rightarrow> DBTx \<Rightarrow> DBTx" where
  "DBTx_SetContext ctx t = t\<lparr>Ctx := ctx\<rparr>"

subsection \<open>Sequences of calls on one DBTx\<close>

text \<open>
  One step is a method call together with what the libraries hand back to it.
  \<^verbatim>\<open>EnvCancel\<close> is the one step that is not a method of \<^verbatim>\<open>DBTx\<close>: the caller's cancel
  function or the deadline timer ends the attached context, if it is still live.
\<close>

datatype op =
    OpQuery Duration "rows option \<times> error option" string "arg list"
  | OpExec Duration "sqlResult option \<times> error option" string "arg list"
  | OpSetError "error option"
  | OpSetContext "Context option"
  | OpClose "error option"
  | EnvCancel error

fun step :: "DBTx \<Rightarrow> op \<Rightarrow> DBTx" where
  "step t (OpQuery span reply sql args) = snd (DBTx_Query span reply sql args t)"
| "step t (OpExec span reply sql args) = snd (DBTx_Exec span reply sql args t)"
| "step t (OpSetError e) = DBTx_SetError e t"
| "step t (OpSetContext ctx) = DBTx_SetContext ctx t"
| "step t (OpClose reply) = snd (DBTx_Close reply t)"
| "step t (EnvCancel e) =
     (case Ctx t of
        None \<Rightarrow> t
      | Some c \<Rightarrow> if Done c then t else t\<lparr>Ctx := Some (c\<lparr>Err := Some e\<rparr>)\<rparr>)"

fun run :: "DBTx \<Rightarrow> op list \<Rightarrow> DBTx" where
  "run t [] = t"
| "run t (x # xs) = run (step t x) xs"

text \<open>The call is a Query, Exec or SetError.\<close>

fun is_call :: "op \<Rightarrow> bool" where
  "is_call (OpQuery span reply sql args) = True"
| "is_call (OpExec span reply sql args) = True"
| "is_call (OpSetError e) = True"
| "is_call x = False"

text \<open>The call records a non-nil error: a Query or Exec that the driver fails, or a
  SetError with a non-nil argument.\<close>

fun records_error :: "op \<Rightarrow> bool" where
  "records_error (OpQuery span reply sql args) = (snd reply \<noteq> None)"
| "records_error (OpExec span reply sql args) = (snd reply \<noteq> None)"
| "records_error (OpSetError e) = (e \<noteq> None)"
| "records_error x = False"

text \<open>A step after which no error has been recorded: a Query or Exec that succeeds, a
  SetError with \<^verbatim>\<open>nil\<close>, or a step that does not touch the error field. A Close is not
  such a step.\<close>

fun succeeds :: "op \<Rightarrow> bool" where
  "succeeds (OpQuery span reply sql args) = (snd reply = None)"
| "succeeds (OpExec span reply sql args) = (snd reply = None)"
| "succeeds (OpSetError e) = (e = None)"
| "succeeds (OpSetContext ctx) = True"
| "succeeds (EnvCancel e) = True"
| "succeeds (OpClose reply) = False"

text \<open>The attached context is nil, or neither cancelled nor past its deadline.\<close>

fun ctx_live :: "Context option \<Rightarrow> bool" where
  "ctx_live None = True"
| "ctx_live (Some c) = (\<not> Done c)"

fun is_terminal :: "txcall \<Rightarrow> bool" where
  "is_terminal Tx_Commit = True"
| "is_terminal Tx_Rollback = True"
| "is_terminal c = False"

text \<open>The error a Query or Exec hands back, or a SetError is given.\<close>

fun op_err :: "op \<Rightarrow> error option" where
  "op_err (OpQuery span reply sql args) = snd reply"
| "op_err (OpExec span reply sql args) = snd reply"
| "op_err (OpSetError e) = e"
| "op_err x = None"

text \<open>A step that is neither a Query, Exec or SetError nor a Close: a SetContext, or the
  end of the context.\<close>

fun beside_calls :: "op \<Rightarrow> bool" where
  "beside_calls (OpSetContext c) = True"
| "beside_calls (EnvCancel e) = True"
| "beside_calls x = False"

subsection \<open>The handle of database/sql\<close>

text \<open>
  \<^verbatim>\<open>database/sql\<close> is not part of the repository. Its \<^verbatim>\<open>Tx\<close> documents that after a call
  to \<^verbatim>\<open>Commit\<close> or \<^verbatim>\<open>Rollback\<close> all operations on the transaction fail with
  \<^verbatim>\<open>ErrTxDone\<close>: the handle answers them itself and the driver is not asked.
  \<^verbatim>\<open>tx_done\<close> says that the handle has received a \<^verbatim>\<open>Commit\<close> or \<^verbatim>\<open>Rollback\<close>,
  \<^verbatim>\<open>driver_calls\<close> are the calls the handle passes on to the driver (all of them up to
  the first \<^verbatim>\<open>Commit\<close> or \<^verbatim>\<open>Rollback\<close>, and none after it), and \<^verbatim>\<open>sql_Tx_answers\<close> says
  that the answer a step carries is one this handle can give in the state it is in.
\<close>

definition tx_done :: "sqlTx \<Rightarrow> bool" where
  "tx_done h = list_ex is_terminal h"

fun driver_calls :: "sqlTx \<Rightarrow> txcall list" where
  "driver_calls [] = []"
| "driver_calls (c # cs) = (if is_terminal c then [c] else c # driver_calls cs)"





section \<open>The factories\<close>

text \<open>
  \<^verbatim>\<open>strings.ToLower\<close> on bytes: an ASCII capital becomes its small letter and every other
  byte stays. On a string that is not ASCII the library maps runes instead, and no rune
  outside ASCII has a letter of \<^verbatim>\<open>mysql\<close> or \<^verbatim>\<open>mssql\<close> as its lower case, so the
  comparison with these two words comes out the same.
\<close>

definition toLower_byte :: "char \<Rightarrow> char" where
  "toLower_byte c =
     (if 65 \<le> (of_char c :: nat) \<and> (of_char c :: nat) \<le> 90
      then char_of ((of_char c :: nat) + 32) else c)"

definition ToLower :: "string \<Rightarrow> string" where
  "ToLower s = map toLower_byte s"

text \<open>The verb \<^verbatim>\<open>%d\<close> of \<^verbatim>\<open>fmt\<close>: an integer in decimal.\<close>

fun digits :: "nat \<Rightarrow> string" where
  "digits n =
     (if n < 10 then [''0123456789'' ! n]
      else digits (n div 10) @ [''0123456789'' ! (n mod 10)])"

definition Itoa :: "int \<Rightarrow> string" where
  "Itoa i = (if i < 0 then ''-'' @ digits (nat (- i)) else digits (nat i))"

text \<open>\<^verbatim>\<open>sql_Open\<close> is the library's \<^verbatim>\<open>sql.Open\<close>: given the driver name and the data source
  name it answers with an error, or with a handle that has received no call yet.\<close>

definition NewDBStore ::
  "(string \<Rightarrow> string \<Rightarrow> error option) \<Rightarrow> string \<Rightarrow> string \<Rightarrow> int \<Rightarrow> string \<Rightarrow> string \<Rightarrow> string
    \<Rightarrow> DBStore option \<times> error option" where
  "NewDBStore sql_Open driver host port database username password =
     (case (if ToLower driver = ''mysql''
            then Inr (username @ '':'' @ password @ ''@tcp('' @ host @ '':'' @ Itoa port @ '')/''
                      @ database @ ''?charset=utf8mb4&autocommit=true&parseTime=True'')
            else if ToLower driver = ''mssql''
            then Inr (''server='' @ host @ '';user id='' @ username @ '';password='' @ password
                      @ '';port='' @ Itoa port @ '';database='' @ database)
            else Inl (ErrorString (''unsupport db driver: '' @ driver))) of
        Inl e \<Rightarrow> (None, Some e)
      | Inr dsn \<Rightarrow>
          (case sql_Open driver dsn of
             Some e \<Rightarrow> (None, Some e)
           | None \<Rightarrow> (Some \<lparr>DB = Some [], debug = False, slowlog = 0\<rparr>, None)))"

definition NewDBStoreCharset ::
  "(string \<Rightarrow> string \<Rightarrow> error option) \<Rightarrow> string \<Rightarrow> string \<Rightarrow> int \<Rightarrow> string \<Rightarrow> string \<Rightarrow> string
    \<Rightarrow> string \<Rightarrow> DBStore option \<times> error option" where
  "NewDBStoreCharset sql_Open driver host port database username password charset =
     (case (if ToLower driver = ''mysql''
            then (let charset1 = (if charset = [] then ''utf8'' else charset)
                  in Inr (username @ '':'' @ password @ ''@tcp('' @ host @ '':'' @ Itoa port @ '')/''
                          @ database @ ''?charset='' @ charset1 @ ''&autocommit=true&parseTime=True''))
            else if ToLower driver = ''mssql''
            then Inr (''server='' @ host @ '';user id='' @ username @ '';password='' @ password
                      @ '';port='' @ Itoa port @ '';database='' @ database)
            else Inl (ErrorString (''unsupport db driver: '' @ driver))) of
        Inl e \<Rightarrow> (None, Some e)
      | Inr dsn \<Rightarrow>
          (case sql_Open driver dsn of
             Some e \<Rightarrow> (None, Some e)
           | None \<Rightarrow> (Some \<lparr>DB = Some [], debug = False, slowlog = 0\<rparr>, None)))"

section \<open>The interface DB and the tracing decorator\<close>

text \<open>
  A value of the interface \<^verbatim>\<open>DB\<close>: the three methods of an implementation, acting on the
  state \<^verbatim>\<open>'s\<close> of the object behind the interface value. Any implementation is allowed, so
  a method may panic.
\<close>

record 's DB =
  Query :: "string \<Rightarrow> arg list \<Rightarrow> 's \<Rightarrow> (rows option \<times> error option) outcome \<times> 's"
  Exec :: "string \<Rightarrow> arg list \<Rightarrow> 's \<Rightarrow> (sqlResult option \<times> error option) outcome \<times> 's"
  SetError :: "error option \<Rightarrow> 's \<Rightarrow> 's"

text \<open>
  \<^verbatim>\<open>*DBTx\<close> as a \<^verbatim>\<open>DB\<close>. The state is the transaction and the lines logged so far;
  \<^verbatim>\<open>span\<close>, \<^verbatim>\<open>qreply\<close> and \<^verbatim>\<open>ereply\<close> are what the clock and the driver hand back to the
  next call.
\<close>

definition DBTx_DB ::
  "Duration \<Rightarrow> rows option \<times> error option \<Rightarrow> sqlResult option \<times> error option
    \<Rightarrow> (DBTx \<times> logline list) DB" where
  "DBTx_DB span qreply ereply =
     \<lparr>Query = (\<lambda>sql args (t, lg).
                 case DBTx_Query span qreply sql args t of
                   ((r, lines), t1) \<Rightarrow> (Return r, (t1, lg @ lines))),
      Exec = (\<lambda>sql args (t, lg).
                 case DBTx_Exec span ereply sql args t of
                   ((r, lines), t1) \<Rightarrow> (Return r, (t1, lg @ lines))),
      SetError = (\<lambda>e (t, lg). (DBTx_SetError e t, lg))\<rparr>"




text \<open>
  The operations a method performs on the span it started, in order.
\<close>

datatype field = Field_String string string | Field_Error error

datatype span_op =
    StartSpanFromContext Context string
  | LogFields field
  | SetTag_Error bool
  | Finish

text \<open>\<^verbatim>\<open>OpenTrace\<close> stores the context it is given without looking at it, so the field
  \<^verbatim>\<open>ctx\<close> may be \<^verbatim>\<open>nil\<close>.\<close>

record 's TracedDB =
  DB :: "'s DB"
  ctx :: "Context option"

definition OpenTrace :: "Context option \<Rightarrow> 's DB \<Rightarrow> 's TracedDB" where
  "OpenTrace c db = \<lparr>TracedDB.DB = db, ctx = c\<rparr>"




text \<open>The body of \<^verbatim>\<open>TracedDB.SetError\<close> is empty and its parameter has no name. The method
  is declared on \<^verbatim>\<open>*TracedDB\<close>, so it is the one called, not the method of the embedded
  \<^verbatim>\<open>DB\<close>.\<close>

definition TracedDB_SetError :: "'s TracedDB \<Rightarrow> error option \<Rightarrow> 's \<Rightarrow> span_op list \<times> 's" where
  "TracedDB_SetError db e s = ([], s)"

subsection \<open>Predicates on what a call leaves behind\<close>

fun is_SLOW :: "logline \<Rightarrow> bool" where
  "is_SLOW (SLOW span sql args) = True"
| "is_SLOW (DEBUG sql args) = False"



text \<open>The call returned an error value.\<close>

fun returns_error :: "(error option) outcome \<Rightarrow> bool" where
  "returns_error (Return (Some e)) = True"
| "returns_error x = False"

section \<open>Properties of DBTx\<close>

lemma run_append: "run t (xs @ ys) = run (run t xs) ys"
  by (induction xs arbitrary: t) simp_all

lemma step_rowsAffected: "rowsAffected (step t x) = rowsAffected t"
  by (cases x)
     (simp_all add: DBTx_Query_def DBTx_Exec_def DBTx_SetError_def DBTx_SetContext_def
        DBTx_Close_def Let_def split: option.splits)

lemma run_rowsAffected: "rowsAffected (run t xs) = rowsAffected t"
  by (induction xs arbitrary: t) (simp_all add: step_rowsAffected)

lemma BeginTx_fresh:
  assumes "fst (DBStore_BeginTx reply cx store) = Return (Some t0, e)"
  shows "err t0 = None" and "rowsAffected t0 = 0" and "tx t0 = []" and "Ctx t0 = cx"
  using assms by (auto simp: DBStore_BeginTx_def split: option.splits)

lemma step_succeeds_err: "succeeds x \<Longrightarrow> err t = None \<Longrightarrow> err (step t x) = None"
  by (cases x)
     (simp_all add: DBTx_Query_def DBTx_Exec_def DBTx_SetError_def DBTx_SetContext_def
        Let_def split: option.splits)

lemma run_succeeds_err: "\<forall>x\<in>set xs. succeeds x \<Longrightarrow> err t = None \<Longrightarrow> err (run t xs) = None"
  by (induction xs arbitrary: t) (simp_all add: step_succeeds_err)

lemma Close_rollback: "err t \<noteq> None \<Longrightarrow> tx (snd (DBTx_Close r t)) = tx t @ [Tx_Rollback]"
  by (auto simp: DBTx_Close_def Done_def Let_def split: option.splits)

lemma Close_commit:
  "err t = None \<Longrightarrow> ctx_live (Ctx t) \<Longrightarrow> DBTx_Close r t = (r, t\<lparr>tx := tx t @ [Tx_Commit]\<rparr>)"
  by (cases "Ctx t") (simp_all add: DBTx_Close_def Let_def)

text \<open>
  C10. No operation on a \<^verbatim>\<open>DBTx\<close> writes the field \<^verbatim>\<open>rowsAffected\<close>: whatever sequence
  of Query, Exec, SetError, SetContext and Close calls (and cancellations of the context) is
  applied, the field keeps the value it had, and on a transaction made by \<^verbatim>\<open>BeginTx\<close> that
  value is the zero the composite literal leaves there.
\<close>

theorem DBTx_rowsAffected_never_modified:
  "rowsAffected (run t ops) = rowsAffected t \<and>
   (fst (DBStore_BeginTx reply cx store) = Return (Some t0, e) \<longrightarrow> rowsAffected (run t0 ops) = 0)"
  by (simp add: run_rowsAffected BeginTx_fresh(2))

theorem DBTx_rowsAffected_never_modified_witness:
  "fst (DBStore_BeginTx None None \<lparr>DBStore.DB = Some [], debug = False, slowlog = 0\<rparr>)
     = Return (Some \<lparr>tx = [], debug = False, slowlog = 0, err = None, rowsAffected = 0, Ctx = None\<rparr>, None)
   \<and> rowsAffected (run \<lparr>tx = [], debug = False, slowlog = 0, err = None, rowsAffected = 0, Ctx = None\<rparr>
        [OpExec 5 (Some (Result 1 3), None) ''UPDATE users SET age = ?'' [ArgInt 30],
         OpSetError (Some (DriverError ''x'')), OpClose None]) = 0"
  using DBTx_rowsAffected_never_modified
    [of "\<lparr>tx = [], debug = False, slowlog = 0, err = None, rowsAffected = 0, Ctx = None\<rparr>"
        "[OpExec 5 (Some (Result 1 3), None) ''UPDATE users SET age = ?'' [ArgInt 30],
          OpSetError (Some (DriverError ''x'')), OpClose None]"
        None None "\<lparr>DBStore.DB = Some [], debug = False, slowlog = 0\<rparr>"
        "\<lparr>tx = [], debug = False, slowlog = 0, err = None, rowsAffected = 0, Ctx = None\<rparr>" None]
  by (simp add: DBStore_BeginTx_def)

text \<open>
  C2. A transaction made by \<^verbatim>\<open>BeginTx\<close> on which every Query and Exec succeeded and
  no SetError passed an error, and whose context at the time of Close is nil or still live,
  is committed: Close issues \<^verbatim>\<open>Commit\<close> on the handle, and nothing else.
\<close>

theorem DBTx_Close_commits_when_all_succeeded:
  assumes "fst (DBStore_BeginTx reply cx store) = Return (Some t0, e)"
    and "list_all succeeds ops"
    and "ctx_live (Ctx (run t0 ops))"
  shows "DBTx_Close r (run t0 ops) = (r, (run t0 ops)\<lparr>tx := tx (run t0 ops) @ [Tx_Commit]\<rparr>)"
proof -
  have "err t0 = None"
    using assms(1) by (rule BeginTx_fresh(1))
  moreover have "\<forall>x\<in>set ops. succeeds x"
    using assms(2) by (simp add: list_all_iff)
  ultimately have "err (run t0 ops) = None"
    by (simp add: run_succeeds_err)
  then show ?thesis
    using assms(3) by (rule Close_commit)
qed

theorem DBTx_Close_commits_when_all_succeeded_witness:
  "fst (DBStore_BeginTx None (Some \<lparr>Err = None\<rparr>) \<lparr>DBStore.DB = Some [], debug = False, slowlog = 0\<rparr>)
     = Return (Some \<lparr>tx = [], debug = False, slowlog = 0, err = None, rowsAffected = 0,
                      Ctx = Some \<lparr>Err = None\<rparr>\<rparr>, None)
   \<and> list_all succeeds
        [OpQuery 2 (Some (Rows []), None) ''SELECT id FROM users'' [],
         OpExec 4 (Some (Result 7 1), None) ''INSERT INTO users (name) VALUES (?)'' [ArgString ''ann'']]
   \<and> tx (snd (DBTx_Close None
        (run \<lparr>tx = [], debug = False, slowlog = 0, err = None, rowsAffected = 0,
               Ctx = Some \<lparr>Err = None\<rparr>\<rparr>
          [OpQuery 2 (Some (Rows []), None) ''SELECT id FROM users'' [],
           OpExec 4 (Some (Result 7 1), None) ''INSERT INTO users (name) VALUES (?)'' [ArgString ''ann'']])))
     = [Tx_QueryContext \<lparr>Err = None\<rparr> ''SELECT id FROM users'' [],
        Tx_ExecContext \<lparr>Err = None\<rparr> ''INSERT INTO users (name) VALUES (?)'' [ArgString ''ann''],
        Tx_Commit]"
proof -
  let ?store = "\<lparr>DBStore.DB = Some [], debug = False, slowlog = 0\<rparr>"
  let ?t0 = "\<lparr>tx = [], debug = False, slowlog = 0, err = None, rowsAffected = 0,
              Ctx = Some \<lparr>Err = None\<rparr>\<rparr>"
  let ?ops = "[OpQuery 2 (Some (Rows []), None) ''SELECT id FROM users'' [],
               OpExec 4 (Some (Result 7 1), None) ''INSERT INTO users (name) VALUES (?)''
                 [ArgString ''ann'']]"
  have b: "fst (DBStore_BeginTx None (Some \<lparr>Err = None\<rparr>) ?store) = Return (Some ?t0, None)"
    by (simp add: DBStore_BeginTx_def)
  have s: "list_all succeeds ?ops"
    by simp
  have l: "ctx_live (Ctx (run ?t0 ?ops))"
    by (simp add: DBTx_Query_def DBTx_Exec_def Done_def)
  have r: "tx (run ?t0 ?ops)
      = [Tx_QueryContext \<lparr>Err = None\<rparr> ''SELECT id FROM users'' [],
         Tx_ExecContext \<lparr>Err = None\<rparr> ''INSERT INTO users (name) VALUES (?)'' [ArgString ''ann'']]"
    by (simp add: DBTx_Query_def DBTx_Exec_def)
  show ?thesis
    using b s r DBTx_Close_commits_when_all_succeeded [OF b s l, of None] by simp
qed

text \<open>
  C3. When the context attached to a transaction is done at the time of Close (cancelled,
  or past its deadline), Close stores the error of the context in \<^verbatim>\<open>err\<close>, whatever was
  recorded there before, and issues \<^verbatim>\<open>Rollback\<close> on the handle, also when no call on the
  transaction had failed.
\<close>

theorem DBTx_Close_rolls_back_when_context_done:
  assumes "Ctx t = Some c" and "Done c"
  shows "DBTx_Close r t = (r, t\<lparr>tx := tx t @ [Tx_Rollback], err := Err c\<rparr>) \<and> Err c \<noteq> None"
  using assms by (simp add: DBTx_Close_def Done_def)

theorem DBTx_Close_rolls_back_when_context_done_witness:
  "Ctx (run \<lparr>tx = [], debug = False, slowlog = 0, err = None, rowsAffected = 0,
              Ctx = Some \<lparr>Err = None\<rparr>\<rparr>
         [OpExec 4 (Some (Result 7 1), None) ''DELETE FROM blogs'' [], EnvCancel Canceled])
     = Some \<lparr>Err = Some Canceled\<rparr>
   \<and> Done \<lparr>Err = Some Canceled\<rparr>
   \<and> err (run \<lparr>tx = [], debug = False, slowlog = 0, err = None, rowsAffected = 0,
                 Ctx = Some \<lparr>Err = None\<rparr>\<rparr>
         [OpExec 4 (Some (Result 7 1), None) ''DELETE FROM blogs'' [], EnvCancel Canceled]) = None
   \<and> DBTx_Close None
        (run \<lparr>tx = [], debug = False, slowlog = 0, err = None, rowsAffected = 0,
               Ctx = Some \<lparr>Err = None\<rparr>\<rparr>
          [OpExec 4 (Some (Result 7 1), None) ''DELETE FROM blogs'' [], EnvCancel Canceled])
     = (None, \<lparr>tx = [Tx_ExecContext \<lparr>Err = None\<rparr> ''DELETE FROM blogs'' [], Tx_Rollback],
               debug = False, slowlog = 0, err = Some Canceled, rowsAffected = 0,
               Ctx = Some \<lparr>Err = Some Canceled\<rparr>\<rparr>)"
proof -
  let ?t = "run \<lparr>tx = [], debug = False, slowlog = 0, err = None, rowsAffected = 0,
                  Ctx = Some \<lparr>Err = None\<rparr>\<rparr>
              [OpExec 4 (Some (Result 7 1), None) ''DELETE FROM blogs'' [], EnvCancel Canceled]"
  have v: "?t = \<lparr>tx = [Tx_ExecContext \<lparr>Err = None\<rparr> ''DELETE FROM blogs'' []],
                  debug = False, slowlog = 0, err = None, rowsAffected = 0,
                  Ctx = Some \<lparr>Err = Some Canceled\<rparr>\<rparr>"
    by (simp add: DBTx_Exec_def Done_def)
  have c: "Ctx ?t = Some \<lparr>Err = Some Canceled\<rparr>"
    unfolding v by simp
  have d: "Done \<lparr>Err = Some Canceled\<rparr>"
    by (simp add: Done_def)
  have k: "DBTx_Close None ?t = (None, ?t\<lparr>tx := tx ?t @ [Tx_Rollback], err := Err \<lparr>Err = Some Canceled\<rparr>\<rparr>)"
    using DBTx_Close_rolls_back_when_context_done [OF c d, of None] by (rule conjunct1)
  show ?thesis
    using c d k unfolding v by simp
qed

text \<open>
  C1 as the specification states it: after a sequence of Query, Exec and SetError calls of
  which at least one records an error, Close rolls back. The code does not do that. Every
  Query and Exec assigns its own error to \<^verbatim>\<open>err\<close>, \<^verbatim>\<open>nil\<close> included, so a success after a
  failure erases the failure: here the first Exec fails, the second succeeds, and Close
  issues \<^verbatim>\<open>Commit\<close>.
\<close>

theorem DBTx_Close_commits_after_erased_error:
  "list_all is_call
     [OpExec 1 (None, Some (DriverError ''duplicate key'')) ''INSERT INTO users (id) VALUES (1)'' [],
      OpExec 1 (Some (Result 2 1), None) ''INSERT INTO users (id) VALUES (2)'' []]
   \<and> list_ex records_error
     [OpExec 1 (None, Some (DriverError ''duplicate key'')) ''INSERT INTO users (id) VALUES (1)'' [],
      OpExec 1 (Some (Result 2 1), None) ''INSERT INTO users (id) VALUES (2)'' []]
   \<and> tx (snd (DBTx_Close None
        (run \<lparr>tx = [], debug = False, slowlog = 0, err = None, rowsAffected = 0, Ctx = None\<rparr>
          [OpExec 1 (None, Some (DriverError ''duplicate key'')) ''INSERT INTO users (id) VALUES (1)'' [],
           OpExec 1 (Some (Result 2 1), None) ''INSERT INTO users (id) VALUES (2)'' []])))
     = [Tx_Exec ''INSERT INTO users (id) VALUES (1)'' [],
        Tx_Exec ''INSERT INTO users (id) VALUES (2)'' [],
        Tx_Commit]"
  by (simp add: DBTx_Exec_def DBTx_Close_def)

lemma step_call_err: "is_call x \<Longrightarrow> err (step t x) = op_err x"
  by (cases x)
     (simp_all add: DBTx_Query_def DBTx_Exec_def DBTx_SetError_def Let_def split: option.splits)

lemma step_beside_err: "beside_calls x \<Longrightarrow> err (step t x) = err t"
  by (cases x) (simp_all add: DBTx_SetContext_def split: option.splits)

lemma run_beside_err: "list_all beside_calls xs \<Longrightarrow> err (run t xs) = err t"
  by (induction xs arbitrary: t) (simp_all add: step_beside_err)

lemma records_error_op_err: "is_call x \<Longrightarrow> records_error x = (op_err x \<noteq> None)"
  by (cases x) simp_all

text \<open>
  C1 as the code has it: the error field holds the error of the most recent Query, Exec or
  SetError, and \<^verbatim>\<open>nil\<close> when that call succeeded or was given \<^verbatim>\<open>nil\<close>, whatever the steps
  before it recorded and whatever SetContext calls or cancellations follow it. So Close
  issues \<^verbatim>\<open>Rollback\<close> when the most recent call recorded an error, and with a context that
  is nil or live it issues \<^verbatim>\<open>Commit\<close> when the most recent call recorded none, also after
  an earlier call had failed.
\<close>

theorem DBTx_Close_decided_by_last_call:
  assumes "is_call x" and "list_all beside_calls rest"
  shows "err (run t (ops @ x # rest)) = op_err x
    \<and> (records_error x \<longrightarrow>
         tx (snd (DBTx_Close r (run t (ops @ x # rest))))
           = tx (run t (ops @ x # rest)) @ [Tx_Rollback])
    \<and> (\<not> records_error x \<and> ctx_live (Ctx (run t (ops @ x # rest))) \<longrightarrow>
         DBTx_Close r (run t (ops @ x # rest))
           = (r, (run t (ops @ x # rest))\<lparr>tx := tx (run t (ops @ x # rest)) @ [Tx_Commit]\<rparr>))"
proof -
  have "run t (ops @ x # rest) = run (step (run t ops) x) rest"
    by (simp add: run_append)
  then have e: "err (run t (ops @ x # rest)) = op_err x"
    using assms by (simp add: run_beside_err step_call_err)
  have "records_error x = (op_err x \<noteq> None)"
    using assms(1) by (rule records_error_op_err)
  then show ?thesis
    using e Close_rollback [of "run t (ops @ x # rest)" r]
      Close_commit [of "run t (ops @ x # rest)" r]
    by simp
qed

text \<open>Two runs on a fresh transaction. A Query succeeds, SetError records a failed scan and
  a context is attached: Close rolls back. An Exec fails and the next Exec succeeds: the
  error is gone and Close commits.\<close>

theorem DBTx_Close_decided_by_last_call_witness:
  "is_call (OpSetError (Some (DriverError ''scan failed'')))
   \<and> list_all beside_calls [OpSetContext (Some \<lparr>Err = None\<rparr>)]
   \<and> records_error (OpSetError (Some (DriverError ''scan failed'')))
   \<and> tx (snd (DBTx_Close None
        (run \<lparr>tx = [], debug = False, slowlog = 0, err = None, rowsAffected = 0, Ctx = None\<rparr>
          ([OpQuery 1 (Some (Rows []), None) ''SELECT name FROM users'' []]
             @ OpSetError (Some (DriverError ''scan failed''))
             # [OpSetContext (Some \<lparr>Err = None\<rparr>)]))))
     = [Tx_Query ''SELECT name FROM users'' [], Tx_Rollback]
   \<and> is_call (OpExec 1 (Some (Result 2 1), None) ''INSERT INTO users (id) VALUES (2)'' [])
   \<and> \<not> records_error (OpExec 1 (Some (Result 2 1), None) ''INSERT INTO users (id) VALUES (2)'' [])
   \<and> err (run \<lparr>tx = [], debug = False, slowlog = 0, err = None, rowsAffected = 0, Ctx = None\<rparr>
          ([OpExec 1 (None, Some (DriverError ''duplicate key'')) ''INSERT INTO users (id) VALUES (1)'' []]
             @ OpExec 1 (Some (Result 2 1), None) ''INSERT INTO users (id) VALUES (2)'' [] # []))
     = None
   \<and> tx (snd (DBTx_Close None
        (run \<lparr>tx = [], debug = False, slowlog = 0, err = None, rowsAffected = 0, Ctx = None\<rparr>
          ([OpExec 1 (None, Some (DriverError ''duplicate key'')) ''INSERT INTO users (id) VALUES (1)'' []]
             @ OpExec 1 (Some (Result 2 1), None) ''INSERT INTO users (id) VALUES (2)'' [] # []))))
     = [Tx_Exec ''INSERT INTO users (id) VALUES (1)'' [],
        Tx_Exec ''INSERT INTO users (id) VALUES (2)'' [],
        Tx_Commit]"
proof -
  let ?t0 = "\<lparr>tx = [], debug = False, slowlog = 0, err = None, rowsAffected = 0, Ctx = None\<rparr>"
  let ?x1 = "OpSetError (Some (DriverError ''scan failed''))"
  let ?x2 = "OpExec 1 (Some (Result 2 1), None) ''INSERT INTO users (id) VALUES (2)'' []"
  let ?pre2 = "[OpExec 1 (None, Some (DriverError ''duplicate key''))
                  ''INSERT INTO users (id) VALUES (1)'' []]"
  have a1: "is_call ?x1" and a2: "is_call ?x2"
    by simp_all
  have b1: "list_all beside_calls [OpSetContext (Some \<lparr>Err = None\<rparr>)]"
    and b2: "list_all beside_calls []"
    by simp_all
  have v1: "tx (run ?t0 ([OpQuery 1 (Some (Rows []), None) ''SELECT name FROM users'' []]
                  @ ?x1 # [OpSetContext (Some \<lparr>Err = None\<rparr>)]))
              = [Tx_Query ''SELECT name FROM users'' []]"
    by (simp add: DBTx_Query_def DBTx_SetError_def DBTx_SetContext_def)
  have v2: "tx (run ?t0 (?pre2 @ ?x2 # []))
              = [Tx_Exec ''INSERT INTO users (id) VALUES (1)'' [],
                 Tx_Exec ''INSERT INTO users (id) VALUES (2)'' []]"
    and c2: "ctx_live (Ctx (run ?t0 (?pre2 @ ?x2 # [])))"
    by (simp_all add: DBTx_Exec_def)
  show ?thesis
    using a1 a2 b1 v1 v2 c2
      DBTx_Close_decided_by_last_call [OF a1 b1, of ?t0
        "[OpQuery 1 (Some (Rows []), None) ''SELECT name FROM users'' []]" None]
      DBTx_Close_decided_by_last_call [OF a2 b2, of ?t0 ?pre2 None]
    by simp
qed



lemma driver_calls_open: "\<not> tx_done h \<Longrightarrow> driver_calls h = h"
  by (induction h) (simp_all add: tx_done_def)














section \<open>Properties of DBStore\<close>

lemma DBStore_Close_success_nil:
  "fst (DBStore_Close r store) = Return None \<Longrightarrow> DBStore.DB (snd (DBStore_Close r store)) = None"
  by (auto simp: DBStore_Close_def split: option.splits)

text \<open>
  C4 as the specification states it: a second Close after a successful first Close fails
  with an \<^verbatim>\<open>AlreadyClosedError\<close>. The package has no such error. The first Close sets
  \<^verbatim>\<open>store.DB\<close> to \<^verbatim>\<open>nil\<close>, and the second calls \<^verbatim>\<open>Close\<close> through that nil handle: it
  panics and returns no error value at all.
\<close>

theorem DBStore_second_Close_returns_no_error:
  "fst (DBStore_Close None \<lparr>DBStore.DB = Some [], debug = False, slowlog = 0\<rparr>) = Return None
   \<and> fst (DBStore_Close None
            (snd (DBStore_Close None \<lparr>DBStore.DB = Some [], debug = False, slowlog = 0\<rparr>)))
       = Panic NilPointerDereference
   \<and> \<not> returns_error
         (fst (DBStore_Close None
                 (snd (DBStore_Close None \<lparr>DBStore.DB = Some [], debug = False, slowlog = 0\<rparr>))))"
  by (simp add: DBStore_Close_def)

text \<open>
  C4 as the code has it: after a Close that returned \<^verbatim>\<open>nil\<close>, a second Close never returns
  success, whatever the library would answer: it panics on the nil handle and leaves the
  store as it is.
\<close>

theorem DBStore_second_Close_panics:
  assumes "fst (DBStore_Close r1 store) = Return None"
  shows "DBStore_Close r2 (snd (DBStore_Close r1 store))
           = (Panic NilPointerDereference, snd (DBStore_Close r1 store))"
  using DBStore_Close_success_nil [OF assms] by (simp add: DBStore_Close_def)

theorem DBStore_second_Close_panics_witness:
  "fst (DBStore_Close None
          \<lparr>DBStore.DB = Some [DB_Exec ''DELETE FROM blogs'' []], debug = False, slowlog = 0\<rparr>)
     = Return None
   \<and> DBStore_Close None
        (snd (DBStore_Close None
                \<lparr>DBStore.DB = Some [DB_Exec ''DELETE FROM blogs'' []], debug = False, slowlog = 0\<rparr>))
     = (Panic NilPointerDereference, \<lparr>DBStore.DB = None, debug = False, slowlog = 0\<rparr>)"
proof -
  let ?store = "\<lparr>DBStore.DB = Some [DB_Exec ''DELETE FROM blogs'' []], debug = False, slowlog = 0\<rparr>"
  have a: "fst (DBStore_Close None ?store) = Return None"
    by (simp add: DBStore_Close_def)
  have b: "snd (DBStore_Close None ?store) = \<lparr>DBStore.DB = None, debug = False, slowlog = 0\<rparr>"
    by (simp add: DBStore_Close_def)
  show ?thesis
    using a DBStore_second_Close_panics [OF a, of None] by (simp add: b)
qed

section \<open>Slow-query logging\<close>

lemma NewDBStore_default_slowlog:
  "fst (NewDBStore sql_Open driver host port database username password) = Some st
     \<Longrightarrow> DBStore.slowlog st = 0"
  by (auto simp: NewDBStore_def split: if_splits option.splits)

lemma NewDBStoreCharset_default_slowlog:
  "fst (NewDBStoreCharset sql_Open driver host port database username password charset) = Some st
     \<Longrightarrow> DBStore.slowlog st = 0"
  by (auto simp: NewDBStoreCharset_def Let_def split: if_splits option.splits)

lemma SLOW_DBStore_Query:
  "list_ex is_SLOW (snd (fst (DBStore_Query span qreply sql args store)))
     = (0 < DBStore.slowlog store \<and> DBStore.slowlog store < span)"
  by (simp add: DBStore_Query_def Let_def split: option.splits)

lemma SLOW_DBStore_Exec:
  "list_ex is_SLOW (snd (fst (DBStore_Exec span ereply sql args store)))
     = (0 < DBStore.slowlog store \<and> DBStore.slowlog store < span)"
  by (simp add: DBStore_Exec_def Let_def split: option.splits)

lemma SLOW_DBTx_Query:
  "list_ex is_SLOW (snd (fst (DBTx_Query span qreply sql args t)))
     = (0 < DBTx.slowlog t \<and> DBTx.slowlog t < span)"
  by (simp add: DBTx_Query_def Let_def split: option.splits)

lemma SLOW_DBTx_Exec:
  "list_ex is_SLOW (snd (fst (DBTx_Exec span ereply sql args t)))
     = (0 < DBTx.slowlog t \<and> DBTx.slowlog t < span)"
  by (simp add: DBTx_Exec_def Let_def split: option.splits)

text \<open>
  C7. A Query or an Exec, on a \<^verbatim>\<open>DBStore\<close> or on a \<^verbatim>\<open>DBTx\<close>, writes a \<^verbatim>\<open>SLOW\<close> line
  exactly when the threshold is positive and the measured duration is strictly greater
  than the threshold. With the threshold at zero the right-hand side is false and no
  \<^verbatim>\<open>SLOW\<close> line is written; zero is the value both factories store, so a store on which
  \<^verbatim>\<open>SlowLog\<close> was never called writes none.
\<close>

theorem SLOW_line_iff_threshold_exceeded:
  "list_ex is_SLOW (snd (fst (DBStore_Query span qreply sql args store)))
     = (0 < DBStore.slowlog store \<and> DBStore.slowlog store < span)
   \<and> list_ex is_SLOW (snd (fst (DBStore_Exec span ereply sql args store)))
     = (0 < DBStore.slowlog store \<and> DBStore.slowlog store < span)
   \<and> list_ex is_SLOW (snd (fst (DBTx_Query span qreply sql args t)))
     = (0 < DBTx.slowlog t \<and> DBTx.slowlog t < span)
   \<and> list_ex is_SLOW (snd (fst (DBTx_Exec span ereply sql args t)))
     = (0 < DBTx.slowlog t \<and> DBTx.slowlog t < span)
   \<and> (fst (NewDBStore sql_Open driver host port database username password) = Some st
        \<or> fst (NewDBStoreCharset sql_Open driver host port database username password charset) = Some st
       \<longrightarrow> \<not> list_ex is_SLOW (snd (fst (DBStore_Query span qreply sql args st)))
           \<and> \<not> list_ex is_SLOW (snd (fst (DBStore_Exec span ereply sql args st))))"
  using NewDBStore_default_slowlog [of sql_Open driver host port database username password st]
    NewDBStoreCharset_default_slowlog [of sql_Open driver host port database username password charset st]
  by (auto simp: SLOW_DBStore_Query SLOW_DBStore_Exec SLOW_DBTx_Query SLOW_DBTx_Exec)

text \<open>A transaction with a threshold of 50 ms: a statement that takes 10 ms writes no
  \<^verbatim>\<open>SLOW\<close> line and one that takes 80 ms writes one; a store as \<^verbatim>\<open>NewDBStore\<close> returns it
  writes none for the same 80 ms.\<close>

theorem SLOW_line_iff_threshold_exceeded_witness:
  "\<not> list_ex is_SLOW (snd (fst (DBTx_Exec 10000000 (Some (Result 0 0), None) ''DO SLEEP(0.01)'' []
        \<lparr>tx = [], debug = False, slowlog = 50000000, err = None, rowsAffected = 0, Ctx = None\<rparr>)))
   \<and> list_ex is_SLOW (snd (fst (DBTx_Exec 80000000 (Some (Result 0 0), None) ''DO SLEEP(0.08)'' []
        \<lparr>tx = [], debug = False, slowlog = 50000000, err = None, rowsAffected = 0, Ctx = None\<rparr>)))
   \<and> fst (NewDBStore (\<lambda>d s. None) ''mysql'' ''db.local'' 3306 ''dborm'' ''dborm_user'' ''dborm_pass'')
       = Some \<lparr>DBStore.DB = Some [], debug = False, slowlog = 0\<rparr>
   \<and> \<not> list_ex is_SLOW (snd (fst (DBStore_Query 80000000 (Some (Rows []), None) ''SELECT SLEEP(0.08)'' []
        \<lparr>DBStore.DB = Some [], debug = False, slowlog = 0\<rparr>)))"
proof -
  have n: "fst (NewDBStore (\<lambda>d s. None) ''mysql'' ''db.local'' 3306 ''dborm'' ''dborm_user'' ''dborm_pass'')
       = Some \<lparr>DBStore.DB = Some [], debug = False, slowlog = 0\<rparr>"
    by (simp add: NewDBStore_def ToLower_def toLower_byte_def)
  show ?thesis
    using n
    SLOW_line_iff_threshold_exceeded
      [where span = 10000000 and ereply = "(Some (Result 0 0), None)" and sql = "''DO SLEEP(0.01)''"
         and args = "[]"
         and t = "\<lparr>tx = [], debug = False, slowlog = 50000000, err = None, rowsAffected = 0, Ctx = None\<rparr>"]
    SLOW_line_iff_threshold_exceeded
      [where span = 80000000 and ereply = "(Some (Result 0 0), None)" and sql = "''DO SLEEP(0.08)''"
         and args = "[]"
         and t = "\<lparr>tx = [], debug = False, slowlog = 50000000, err = None, rowsAffected = 0, Ctx = None\<rparr>"]
    SLOW_line_iff_threshold_exceeded
      [where span = 80000000 and qreply = "(Some (Rows []), None)" and sql = "''SELECT SLEEP(0.08)''"
         and args = "[]" and sql_Open = "\<lambda>d s. None" and driver = "''mysql''" and host = "''db.local''"
         and port = 3306 and database = "''dborm''" and username = "''dborm_user''"
         and password = "''dborm_pass''"
         and st = "\<lparr>DBStore.DB = Some [], debug = False, slowlog = 0\<rparr>"]
    by simp
qed

section \<open>Properties of the tracing decorator\<close>








text \<open>
  C6. The specification has \<^verbatim>\<open>SetError\<close> on the decorator pass the error on to the wrapped
  executor. The method does nothing. A decorator opened over a transaction is told of a
  failed scan: it performs no span operation, and the transaction is left without a recorded
  error, where the direct call of \<^verbatim>\<open>SetError\<close> on the wrapped executor records it; the Close
  that follows issues \<^verbatim>\<open>Commit\<close>.
\<close>

theorem TracedDB_SetError_drops_the_error:
  "TracedDB_SetError (OpenTrace (Some \<lparr>Err = None\<rparr>) (DBTx_DB 1 (None, None) (None, None)))
      (Some (DriverError ''scan failed''))
      (\<lparr>tx = [], debug = False, slowlog = 0, err = None, rowsAffected = 0, Ctx = None\<rparr>, [])
     = ([], (\<lparr>tx = [], debug = False, slowlog = 0, err = None, rowsAffected = 0, Ctx = None\<rparr>, []))
   \<and> SetError (TracedDB.DB (OpenTrace (Some \<lparr>Err = None\<rparr>) (DBTx_DB 1 (None, None) (None, None))))
      (Some (DriverError ''scan failed''))
      (\<lparr>tx = [], debug = False, slowlog = 0, err = None, rowsAffected = 0, Ctx = None\<rparr>, [])
     = (\<lparr>tx = [], debug = False, slowlog = 0, err = Some (DriverError ''scan failed''),
          rowsAffected = 0, Ctx = None\<rparr>, [])
   \<and> tx (snd (DBTx_Close None (fst (snd
        (TracedDB_SetError (OpenTrace (Some \<lparr>Err = None\<rparr>) (DBTx_DB 1 (None, None) (None, None)))
           (Some (DriverError ''scan failed''))
           (\<lparr>tx = [], debug = False, slowlog = 0, err = None, rowsAffected = 0, Ctx = None\<rparr>, []))))))
     = [Tx_Commit]"
  by (simp add: TracedDB_SetError_def OpenTrace_def DBTx_DB_def DBTx_SetError_def DBTx_Close_def)

section \<open>Properties of the factories\<close>

text \<open>
  C9. When the driver name, folded to lower case, is neither \<^verbatim>\<open>mysql\<close> nor \<^verbatim>\<open>mssql\<close>, both
  factories return no store and the error \<^verbatim>\<open>unsupport db driver\<close> followed by the name as
  it was given. When it folds to one of the two words, in whatever letter case it was
  written, the factories go on to \<^verbatim>\<open>sql.Open\<close> and return what follows from its answer.
\<close>

theorem NewDBStore_unsupported_driver:
  "(ToLower driver \<noteq> ''mysql'' \<and> ToLower driver \<noteq> ''mssql'' \<longrightarrow>
      NewDBStore sql_Open driver host port database username password
        = (None, Some (ErrorString (''unsupport db driver: '' @ driver)))
      \<and> NewDBStoreCharset sql_Open driver host port database username password charset
        = (None, Some (ErrorString (''unsupport db driver: '' @ driver))))
   \<and> (ToLower driver = ''mysql'' \<or> ToLower driver = ''mssql'' \<longrightarrow>
      (\<exists>dsn. NewDBStore sql_Open driver host port database username password
         = (case sql_Open driver dsn of
              Some e \<Rightarrow> (None, Some e)
            | None \<Rightarrow> (Some \<lparr>DBStore.DB = Some [], debug = False, slowlog = 0\<rparr>, None)))
      \<and> (\<exists>dsn. NewDBStoreCharset sql_Open driver host port database username password charset
         = (case sql_Open driver dsn of
              Some e \<Rightarrow> (None, Some e)
            | None \<Rightarrow> (Some \<lparr>DBStore.DB = Some [], debug = False, slowlog = 0\<rparr>, None))))"
  by (auto simp: NewDBStore_def NewDBStoreCharset_def Let_def)

theorem NewDBStore_unsupported_driver_witness:
  "ToLower ''Postgres'' \<noteq> ''mysql'' \<and> ToLower ''Postgres'' \<noteq> ''mssql''
   \<and> NewDBStore (\<lambda>d s. None) ''Postgres'' ''db.local'' 5432 ''dborm'' ''dborm_user'' ''dborm_pass''
       = (None, Some (ErrorString ''unsupport db driver: Postgres''))
   \<and> NewDBStoreCharset (\<lambda>d s. None) ''Postgres'' ''db.local'' 5432 ''dborm'' ''dborm_user''
         ''dborm_pass'' ''utf8mb4''
       = (None, Some (ErrorString ''unsupport db driver: Postgres''))
   \<and> ToLower ''MsSQL'' = ''mssql''
   \<and> NewDBStore (\<lambda>d s. None) ''MsSQL'' ''db.local'' 1433 ''dborm'' ''dborm_user'' ''dborm_pass''
       = (Some \<lparr>DBStore.DB = Some [], debug = False, slowlog = 0\<rparr>, None)
   \<and> NewDBStoreCharset (\<lambda>d s. None) ''MsSQL'' ''db.local'' 1433 ''dborm'' ''dborm_user''
         ''dborm_pass'' ''utf8mb4''
       = (Some \<lparr>DBStore.DB = Some [], debug = False, slowlog = 0\<rparr>, None)"
proof -
  have a: "ToLower ''Postgres'' \<noteq> ''mysql'' \<and> ToLower ''Postgres'' \<noteq> ''mssql''"
    by (simp add: ToLower_def)
  have b: "ToLower ''MsSQL'' = ''mssql''"
    by code_simp
  show ?thesis
    using a b
      NewDBStore_unsupported_driver [of "''Postgres''" "\<lambda>d s. None" "''db.local''" 5432 "''dborm''"
        "''dborm_user''" "''dborm_pass''" "''utf8mb4''"]
      NewDBStore_unsupported_driver [of "''MsSQL''" "\<lambda>d s. None" "''db.local''" 1433 "''dborm''"
        "''dborm_user''" "''dborm_pass''" "''utf8mb4''"]
    by simp
qed

end
